theory Spec2Isabelle
  imports Complex_Main "HOL-Library.Word"
begin

unbundle bit_operations_syntax

section \<open>3Dmath.h: vectors, 4x4 matrices and transformation constructors\<close>

text \<open>
  The embedding follows \<^verbatim>\<open>src/3Dmath.h\<close> function by function. The scalar type
  \<^verbatim>\<open>seFloat\<close> (a C \<^verbatim>\<open>float\<close>) is read as a real number: \<open>+\<close>, \<open>-\<close>, \<open>*\<close>, \<open>/\<close>,
  \<^verbatim>\<open>sqrtf\<close>, \<^verbatim>\<open>cos\<close>, \<^verbatim>\<open>sin\<close> and \<^verbatim>\<open>tan\<close> are the exact operations on \<open>real\<close>.
  Rounding, overflow and the non-finite values of binary32 are therefore outside the
  embedding, and \<open>a / 0\<close> is \<open>0\<close> here as everywhere in HOL. Two places are read more
  closely: the \<^verbatim>\<open>memset\<close> of \<^verbatim>\<open>seM4Fill\<close>, which works on the bytes of a \<^verbatim>\<open>float\<close>
  and is modelled on the bit pattern, and the division by the length in
  \<^verbatim>\<open>seV3Normalize\<close>, which has a second reading \<open>seV3Normalize_nf\<close> where a division by
  zero gives a non-finite value.
\<close>

subsection \<open>Types, constants and macros\<close>

type_synonym seFloat = real

text \<open>\<^verbatim>\<open>#define SE_PI 3.14159265358979323846f\<close>: the decimal literal of the source.\<close>

definition SE_PI :: seFloat where
  "SE_PI = 3.14159265358979323846"

text \<open>\<^verbatim>\<open>#define SE_DEG2RAD(n) (n*(SE_PI/180.0f))\<close>\<close>

definition SE_DEG2RAD :: "seFloat \<Rightarrow> seFloat" where
  "SE_DEG2RAD n = n * (SE_PI / 180.0)"

text \<open>\<^verbatim>\<open>#define SE_SQUARED(n) (n*n)\<close>\<close>

definition SE_SQUARED :: "seFloat \<Rightarrow> seFloat" where
  "SE_SQUARED n = n * n"

text \<open>
  \<^verbatim>\<open>typedef struct { seFloat e[16]; } seMat4;\<close> The array is a list read with \<open>!\<close>;
  a value of the C type has exactly 16 elements (\<open>wf_seMat4\<close>), element (row r, column c)
  at index \<open>r * 4 + c\<close>.
\<close>

record seMat4 =
  e :: "seFloat list"

definition wf_seMat4 :: "seMat4 \<Rightarrow> bool" where
  "wf_seMat4 m \<longleftrightarrow> length (e m) = 16"

text \<open>
  \<^verbatim>\<open>typedef struct { seFloat x, y, z; } seVec3;\<close> The fields are named \<open>vx\<close>, \<open>vy\<close>,
  \<open>vz\<close> so that \<open>x\<close>, \<open>y\<close>, \<open>z\<close> stay free for variables.
\<close>

record seVec3 =
  vx :: seFloat
  vy :: seFloat
  vz :: seFloat

text \<open>
  \<^verbatim>\<open>typedef struct { seFloat e[9]; } seMat3;\<close> Row-major, element (row r, column c) at
  index \<open>r * 3 + c\<close>. The field is named \<open>e3\<close>, since a second field \<open>e\<close> would hide
  that of \<open>seMat4\<close>.
\<close>

record seMat3 =
  e3 :: "seFloat list"

text \<open>
  What a call may yield instead of a value of the embedding:
  the conversion of a \<^verbatim>\<open>float\<close> outside the range of \<^verbatim>\<open>int\<close> to \<^verbatim>\<open>int\<close> (undefined in C),
  a bit pattern that is an infinity or a NaN (no real number), and
  a call of a function that is declared and defined nowhere.
\<close>

datatype fault = ConversionOutOfRange | NonFinitePattern | UndefinedFunction string

subsection \<open>3D vectors\<close>

definition seV3Assign :: "seFloat \<Rightarrow> seFloat \<Rightarrow> seFloat \<Rightarrow> seVec3" where
  "seV3Assign x y z = \<lparr>vx = x, vy = y, vz = z\<rparr>"

definition seV3Length :: "seVec3 \<Rightarrow> seFloat" where
  "seV3Length v = sqrt (SE_SQUARED (vx v) + SE_SQUARED (vy v) + SE_SQUARED (vz v))"

definition seV3Dot :: "seVec3 \<Rightarrow> seVec3 \<Rightarrow> seFloat" where
  "seV3Dot v1 v2 = (vx v1 * vx v2) + (vy v1 * vy v2) + (vz v1 * vz v2)"

definition seV3Cross :: "seVec3 \<Rightarrow> seVec3 \<Rightarrow> seVec3" where
  "seV3Cross v1 v2 =
     \<lparr>vx = (vy v1 * vz v2) - (vz v1 * vy v2),
      vy = (vz v1 * vx v2) - (vx v1 * vz v2),
      vz = (vx v1 * vy v2) - (vy v1 * vx v2)\<rparr>"

definition seV3Normalize :: "seVec3 \<Rightarrow> seVec3" where
  "seV3Normalize v =
     (let len = seV3Length v
      in \<lparr>vx = vx v / len, vy = vy v / len, vz = vz v / len\<rparr>)"

definition seV3Scale :: "seVec3 \<Rightarrow> seFloat \<Rightarrow> seVec3" where
  "seV3Scale v len =
     (let v = seV3Normalize v
      in \<lparr>vx = vx v * len, vy = vy v * len, vz = vz v * len\<rparr>)"

definition seV3Add :: "seVec3 \<Rightarrow> seVec3 \<Rightarrow> seVec3" where
  "seV3Add v1 v2 = \<lparr>vx = vx v1 + vx v2, vy = vy v1 + vy v2, vz = vz v1 + vz v2\<rparr>"

definition seV3Subtract :: "seVec3 \<Rightarrow> seVec3 \<Rightarrow> seVec3" where
  "seV3Subtract v1 v2 = \<lparr>vx = vx v1 - vx v2, vy = vy v1 - vy v2, vz = vz v1 - vz v2\<rparr>"

definition seV3MultiplyM3 :: "seMat3 \<Rightarrow> seVec3 \<Rightarrow> seVec3" where
  "seV3MultiplyM3 m v =
     \<lparr>vx = (e3 m ! 0 * vx v) + (e3 m ! 1 * vy v) + (e3 m ! 2 * vz v),
      vy = (e3 m ! 3 * vx v) + (e3 m ! 4 * vy v) + (e3 m ! 5 * vz v),
      vz = (e3 m ! 6 * vx v) + (e3 m ! 7 * vy v) + (e3 m ! 8 * vz v)\<rparr>"

subsection \<open>seV3Normalize at length zero\<close>

text \<open>
  A binary32 result is a real number or one of the non-finite values, an infinity or a
  NaN. In IEEE 754 arithmetic a division by zero raises no trap: \<open>x / 0\<close> is an infinity
  for \<open>x \<noteq> 0\<close> and a NaN for \<open>x = 0\<close>, non-finite either way.
\<close>

datatype fvalue = Finite seFloat | NonFinite

definition fdiv :: "seFloat \<Rightarrow> seFloat \<Rightarrow> fvalue" where
  "fdiv a b = (if b = 0 then NonFinite else Finite (a / b))"

text \<open>
  \<^verbatim>\<open>seV3Normalize\<close> (lines 152-162) once more, its three divisions read with \<open>fdiv\<close>,
  the components returned as a triple. Where the length is not 0 it is \<open>seV3Normalize\<close>
  (lemma \<open>seV3Normalize_nf_finite\<close> below).
\<close>

definition seV3Normalize_nf :: "seVec3 \<Rightarrow> fvalue \<times> fvalue \<times> fvalue" where
  "seV3Normalize_nf v =
     (let len = seV3Length v
      in (fdiv (vx v) len, fdiv (vy v) len, fdiv (vz v) len))"

subsection \<open>seM4Fill: the byte fill\<close>

text \<open>
  \<^verbatim>\<open>memset(&out.e, n, sizeof(out.e))\<close> takes its second argument as an \<^verbatim>\<open>int\<close>: the
  \<^verbatim>\<open>seFloat\<close> \<open>n\<close> is truncated towards zero (undefined when the result does not fit a
  32-bit \<^verbatim>\<open>int\<close>), \<^verbatim>\<open>memset\<close> converts that \<^verbatim>\<open>int\<close> to \<^verbatim>\<open>unsigned char\<close>, and writes
  the byte to each of the 64 bytes of the array. Every element then holds four equal
  bytes (so the byte order plays no role), read back as an IEEE 754 binary32 number:
  sign bit 31, biased exponent bits 30..23, fraction bits 22..0.
\<close>

definition float_to_int :: "seFloat \<Rightarrow> fault + int" where
  "float_to_int n =
     (let t = (if 0 \<le> n then \<lfloor>n\<rfloor> else \<lceil>n\<rceil>)
      in if - (2 ^ 31) \<le> t \<and> t < 2 ^ 31 then Inr t else Inl ConversionOutOfRange)"

definition int_to_uchar :: "int \<Rightarrow> 8 word" where
  "int_to_uchar c = word_of_int c"

definition four_bytes :: "8 word \<Rightarrow> 32 word" where
  "four_bytes b =
     push_bit 24 (ucast b) OR push_bit 16 (ucast b) OR push_bit 8 (ucast b) OR ucast b"

definition binary32_value :: "32 word \<Rightarrow> fault + seFloat" where
  "binary32_value w =
     (let sg = (if bit w 31 then - 1 else 1 :: real);
          ex = unat (drop_bit 23 w AND 0xFF);
          fr = real (unat (w AND 0x7FFFFF))
      in if ex = 255 then Inl NonFinitePattern
         else if ex = 0 then Inr (sg * (fr / 2 ^ 23) / 2 ^ 126)
         else if 127 \<le> ex then Inr (sg * (1 + fr / 2 ^ 23) * 2 ^ (ex - 127))
         else Inr (sg * (1 + fr / 2 ^ 23) / 2 ^ (127 - ex)))"

definition seM4Fill :: "seFloat \<Rightarrow> fault + seMat4" where
  "seM4Fill n =
     (case float_to_int n of
        Inl f \<Rightarrow> Inl f
      | Inr c \<Rightarrow>
          (case binary32_value (four_bytes (int_to_uchar c)) of
             Inl f \<Rightarrow> Inl f
           | Inr v \<Rightarrow> Inr \<lparr>e = replicate 16 v\<rparr>))"

subsection \<open>4x4 matrices\<close>

definition seM4Multiply :: "seMat4 \<Rightarrow> seMat4 \<Rightarrow> seMat4" where
  "seM4Multiply A B = \<lparr>e =
     [(e A ! 0  * e B ! 0) + (e A ! 1  * e B ! 4) + (e A ! 2  * e B ! 8)  + (e A ! 3  * e B ! 12),
      (e A ! 0  * e B ! 1) + (e A ! 1  * e B ! 5) + (e A ! 2  * e B ! 9)  + (e A ! 3  * e B ! 13),
      (e A ! 0  * e B ! 2) + (e A ! 1  * e B ! 6) + (e A ! 2  * e B ! 10) + (e A ! 3  * e B ! 14),
      (e A ! 0  * e B ! 3) + (e A ! 1  * e B ! 7) + (e A ! 2  * e B ! 11) + (e A ! 3  * e B ! 15),
      (e A ! 4  * e B ! 0) + (e A ! 5  * e B ! 4) + (e A ! 6  * e B ! 8)  + (e A ! 7  * e B ! 12),
      (e A ! 4  * e B ! 1) + (e A ! 5  * e B ! 5) + (e A ! 6  * e B ! 9)  + (e A ! 7  * e B ! 13),
      (e A ! 4  * e B ! 2) + (e A ! 5  * e B ! 6) + (e A ! 6  * e B ! 10) + (e A ! 7  * e B ! 14),
      (e A ! 4  * e B ! 3) + (e A ! 5  * e B ! 7) + (e A ! 6  * e B ! 11) + (e A ! 7  * e B ! 15),
      (e A ! 8  * e B ! 0) + (e A ! 9  * e B ! 4) + (e A ! 10 * e B ! 8)  + (e A ! 11 * e B ! 12),
      (e A ! 8  * e B ! 1) + (e A ! 9  * e B ! 5) + (e A ! 10 * e B ! 9)  + (e A ! 11 * e B ! 13),
      (e A ! 8  * e B ! 2) + (e A ! 9  * e B ! 6) + (e A ! 10 * e B ! 10) + (e A ! 11 * e B ! 14),
      (e A ! 8  * e B ! 3) + (e A ! 9  * e B ! 7) + (e A ! 10 * e B ! 11) + (e A ! 11 * e B ! 15),
      (e A ! 12 * e B ! 0) + (e A ! 13 * e B ! 4) + (e A ! 14 * e B ! 8)  + (e A ! 15 * e B ! 12),
      (e A ! 12 * e B ! 1) + (e A ! 13 * e B ! 5) + (e A ! 14 * e B ! 9)  + (e A ! 15 * e B ! 13),
      (e A ! 12 * e B ! 2) + (e A ! 13 * e B ! 6) + (e A ! 14 * e B ! 10) + (e A ! 15 * e B ! 14),
      (e A ! 12 * e B ! 3) + (e A ! 13 * e B ! 7) + (e A ! 14 * e B ! 11) + (e A ! 15 * e B ! 15)]\<rparr>"

definition seM4Identity :: "fault + seMat4" where
  "seM4Identity =
     (case seM4Fill 0 of
        Inl f \<Rightarrow> Inl f
      | Inr out \<Rightarrow> Inr (out\<lparr>e := (e out)[0 := 1, 5 := 1, 10 := 1, 15 := 1]\<rparr>))"

text \<open>
  In the functions below the source declares \<^verbatim>\<open>seMat4 out;\<close> and then assigns every
  one of \<open>out.e[0]\<close> .. \<open>out.e[15]\<close> once; the model lists the assigned values by index.
\<close>

definition seM4Perspective :: "seFloat \<Rightarrow> seFloat \<Rightarrow> seFloat \<Rightarrow> seFloat \<Rightarrow> fault + seMat4" where
  "seM4Perspective angle ratio near far =
     (let ct = 1.0 / tan (angle / 2.0)
      in case seM4Fill 0 of
           Inl f \<Rightarrow> Inl f
         | Inr out \<Rightarrow>
             Inr (out\<lparr>e := (e out)
                    [0 := ct / ratio,
                     5 := ct,
                     10 := (far + near) / (near - far),
                     11 := (2 * far * near) / (near - far),
                     14 := - 1]\<rparr>))"

definition seM4LookAt :: "seVec3 \<Rightarrow> seVec3 \<Rightarrow> seVec3 \<Rightarrow> seMat4" where
  "seM4LookAt eye center up =
     (let f = seV3Normalize (seV3Subtract center eye);
          s = seV3Normalize (seV3Cross f up);
          u = seV3Cross s f
      in \<lparr>e =
           [vx s, vy s, vz s, - seV3Dot s eye,
            vx u, vy u, vz u, - seV3Dot u eye,
            - vx f, - vy f, - vz f, seV3Dot f eye,
            0, 0, 0, 1]\<rparr>)"

definition seM4Scale :: "seFloat \<Rightarrow> seFloat \<Rightarrow> seFloat \<Rightarrow> fault + seMat4" where
  "seM4Scale x y z =
     (case seM4Fill 0 of
        Inl f \<Rightarrow> Inl f
      | Inr out \<Rightarrow> Inr (out\<lparr>e := (e out)[0 := x, 5 := y, 10 := z, 15 := 1.0]\<rparr>))"

definition seM4Translate :: "seFloat \<Rightarrow> seFloat \<Rightarrow> seFloat \<Rightarrow> fault + seMat4" where
  "seM4Translate x y z =
     (case seM4Fill 0 of
        Inl f \<Rightarrow> Inl f
      | Inr out \<Rightarrow>
          Inr (out\<lparr>e := (e out)[3 := x, 7 := y, 11 := z, 0 := 1, 5 := 1, 10 := 1, 15 := 1]\<rparr>))"

definition seM4RotateEuler :: "seFloat \<Rightarrow> seFloat \<Rightarrow> seFloat \<Rightarrow> seMat4" where
  "seM4RotateEuler x y z =
     (let cx = cos (SE_DEG2RAD x);
          sx = sin (SE_DEG2RAD x);
          cy = cos (SE_DEG2RAD y);
          sy = sin (SE_DEG2RAD y);
          cz = cos (SE_DEG2RAD z);
          sz = sin (SE_DEG2RAD z)
      in \<lparr>e =
           [cy * cz, - cy * sz, sy, 0,
            sx * sy * cz + cx * sz, - sx * sy * sz + cx * cz, - sx * cy, 0,
            - cx * sy * cz + sx * sz, cx * sy * sz + sx * cz, cx * cy, 0,
            0, 0, 0, 1]\<rparr>)"

text \<open>
  \<^verbatim>\<open>seMat4 seM4Rotate(seFloat x, seFloat y, seFloat z);\<close> is a prototype only (line 88):
  the repository defines no function of that name, so a call of it has no body to run.
\<close>

definition seM4Rotate :: "seFloat \<Rightarrow> seFloat \<Rightarrow> seFloat \<Rightarrow> fault + seMat4" where
  "seM4Rotate x y z = Inl (UndefinedFunction ''seM4Rotate'')"

definition seM4RotateEulerV3 :: "seVec3 \<Rightarrow> fault + seMat4" where
  "seM4RotateEulerV3 v = seM4Rotate (vx v) (vy v) (vz v)"

definition seM4RotateAA :: "seVec3 \<Rightarrow> seFloat \<Rightarrow> seMat4" where
  "seM4RotateAA v t =
     (let v = seV3Normalize v;
          c = cos (t * 0.01745329251);
          s = sin (t * 0.01745329251)
      in \<lparr>e =
           [c + vx v * vx v * (1 - c), - vz v * s + vx v * vy v * (1 - c), vy v * s + vx v * vz v * (1 - c), 0,
            vz v * s + vy v * vx v * (1 - c), c + vy v * vy v * (1 - c), - vx v * s + vy v * vz v * (1 - c), 0,
            - vy v * s + vz v * vx v * (1 - c), vx v * s + vz v * vy v * (1 - c), c + vz v * vz v * (1 - c), 0,
            0, 0, 0, 1]\<rparr>)"

subsection \<open>Reading a matrix by row and column\<close>

text \<open>
  These are not functions of the source; the statements below use them to speak of rows,
  columns and blocks of a row-major \<open>seMat4\<close>.
\<close>

definition m4_at :: "seMat4 \<Rightarrow> nat \<Rightarrow> nat \<Rightarrow> seFloat" where
  "m4_at m r c = e m ! (r * 4 + c)"

definition m4_rows :: "seMat4 \<Rightarrow> seFloat list list" where
  "m4_rows m = map (\<lambda>r. map (\<lambda>c. m4_at m r c) [0..<4]) [0..<4]"

definition m4_upper_left :: "seMat4 \<Rightarrow> seMat3" where
  "m4_upper_left m = \<lparr>e3 = concat (map (\<lambda>r. map (\<lambda>c. m4_at m r c) [0..<3]) [0..<3])\<rparr>"

definition m4_fourth_column :: "seMat4 \<Rightarrow> seFloat list" where
  "m4_fourth_column m = map (\<lambda>r. m4_at m r 3) [0..<3]"

definition m4_bottom_row :: "seMat4 \<Rightarrow> seFloat list" where
  "m4_bottom_row m = map (\<lambda>c. m4_at m 3 c) [0..<4]"

definition m4_row3 :: "seMat4 \<Rightarrow> nat \<Rightarrow> seVec3" where
  "m4_row3 m r = \<lparr>vx = m4_at m r 0, vy = m4_at m r 1, vz = m4_at m r 2\<rparr>"

definition v3_neg :: "seVec3 \<Rightarrow> seVec3" where
  "v3_neg v = \<lparr>vx = - vx v, vy = - vy v, vz = - vz v\<rparr>"

definition v3_zero :: seVec3 where
  "v3_zero = \<lparr>vx = 0, vy = 0, vz = 0\<rparr>"

subsection \<open>The textbook matrices the rotation constructors are compared with\<close>

text \<open>
  The 3x3 matrix product, the three single-axis rotations and the terms of the Rodrigues
  formula, written from their usual definitions and not from the source.
\<close>

definition spec_M3At :: "seMat3 \<Rightarrow> nat \<Rightarrow> nat \<Rightarrow> seFloat" where
  "spec_M3At m r c = e3 m ! (r * 3 + c)"

definition spec_M3Multiply :: "seMat3 \<Rightarrow> seMat3 \<Rightarrow> seMat3" where
  "spec_M3Multiply A B =
     \<lparr>e3 = concat (map (\<lambda>r. map (\<lambda>c. \<Sum>k\<leftarrow>[0..<3]. spec_M3At A r k * spec_M3At B k c) [0..<3])
                      [0..<3])\<rparr>"

text \<open>A 3x3 matrix applied to a column vector.\<close>

definition spec_M3Apply :: "seMat3 \<Rightarrow> seVec3 \<Rightarrow> seVec3" where
  "spec_M3Apply A v =
     \<lparr>vx = spec_M3At A 0 0 * vx v + spec_M3At A 0 1 * vy v + spec_M3At A 0 2 * vz v,
      vy = spec_M3At A 1 0 * vx v + spec_M3At A 1 1 * vy v + spec_M3At A 1 2 * vz v,
      vz = spec_M3At A 2 0 * vx v + spec_M3At A 2 1 * vy v + spec_M3At A 2 2 * vz v\<rparr>"

definition spec_Rx :: "seFloat \<Rightarrow> seMat3" where
  "spec_Rx a = \<lparr>e3 = [1, 0, 0,
                      0, cos a, - sin a,
                      0, sin a, cos a]\<rparr>"

definition spec_Ry :: "seFloat \<Rightarrow> seMat3" where
  "spec_Ry a = \<lparr>e3 = [cos a, 0, sin a,
                      0, 1, 0,
                      - sin a, 0, cos a]\<rparr>"

definition spec_Rz :: "seFloat \<Rightarrow> seMat3" where
  "spec_Rz a = \<lparr>e3 = [cos a, - sin a, 0,
                      sin a, cos a, 0,
                      0, 0, 1]\<rparr>"

definition spec_M3Identity :: seMat3 where
  "spec_M3Identity = \<lparr>e3 = [1, 0, 0,
                          0, 1, 0,
                          0, 0, 1]\<rparr>"

definition spec_M3Scale :: "seMat3 \<Rightarrow> seFloat \<Rightarrow> seMat3" where
  "spec_M3Scale A k = \<lparr>e3 = map (\<lambda>a. a * k) (e3 A)\<rparr>"

definition spec_M3Add :: "seMat3 \<Rightarrow> seMat3 \<Rightarrow> seMat3" where
  "spec_M3Add A B = \<lparr>e3 = map2 (+) (e3 A) (e3 B)\<rparr>"

text \<open>The outer product \<open>v \<otimes> w\<close> and the cross-product matrix \<open>[v]\<times>\<close>.\<close>

definition spec_outer :: "seVec3 \<Rightarrow> seVec3 \<Rightarrow> seMat3" where
  "spec_outer v w = \<lparr>e3 = [vx v * vx w, vx v * vy w, vx v * vz w,
                           vy v * vx w, vy v * vy w, vy v * vz w,
                           vz v * vx w, vz v * vy w, vz v * vz w]\<rparr>"

definition spec_cross_matrix :: "seVec3 \<Rightarrow> seMat3" where
  "spec_cross_matrix v = \<lparr>e3 = [0, - vz v, vy v,
                                vz v, 0, - vx v,
                                - vy v, vx v, 0]\<rparr>"

text \<open>\<open>R = I\<cdot>c + (v \<otimes> v)\<cdot>(1 - c) + [v]\<times>\<cdot>s\<close>\<close>

definition spec_Rodrigues :: "seVec3 \<Rightarrow> seFloat \<Rightarrow> seFloat \<Rightarrow> seMat3" where
  "spec_Rodrigues v c s =
     spec_M3Add
       (spec_M3Add (spec_M3Scale spec_M3Identity c) (spec_M3Scale (spec_outer v v) (1 - c)))
       (spec_M3Scale (spec_cross_matrix v) s)"

section \<open>Properties\<close>

subsection \<open>Auxiliary facts\<close>

lemma upt3: "[0..<3] = [0, 1, 2]"
  by (simp add: upt_rec)

lemma upt4: "[0..<4] = [0, 1, 2, 3]"
  by (simp add: upt_rec)

lemma replicate16: "replicate 16 a = [a, a, a, a, a, a, a, a, a, a, a, a, a, a, a, a]"
  by (simp add: numeral_eq_Suc)

lemma list16:
  assumes "length xs = 16"
  obtains a0 a1 a2 a3 a4 a5 a6 a7 a8 a9 a10 a11 a12 a13 a14 a15
  where "xs = [a0, a1, a2, a3, a4, a5, a6, a7, a8, a9, a10, a11, a12, a13, a14, a15]"
  using assms by (auto simp add: numeral_eq_Suc length_Suc_conv)

text \<open>The decoding of bit patterns, checked on some known binary32 numbers.\<close>

lemma binary32_value_examples:
  "binary32_value 0x3F800000 = Inr 1"
  "binary32_value 0xBF800000 = Inr (- 1)"
  "binary32_value 0x40000000 = Inr 2"
  "binary32_value 0x3F000000 = Inr (1 / 2)"
  "binary32_value 0x00000001 = Inr (1 / 2 ^ 149)"
  "binary32_value 0x7F800000 = Inl NonFinitePattern"
  by (simp_all add: binary32_value_def)

text \<open>The byte fill with \<open>-1\<close> writes the byte \<open>0xFF\<close>: every element is a NaN.\<close>

lemma seM4Fill_minus_one: "seM4Fill (- 1) = Inl NonFinitePattern"
proof -
  have c: "float_to_int (- 1) = Inr (- 1)"
    by (simp add: float_to_int_def ceiling_minus)
  have b: "four_bytes (int_to_uchar (- 1)) = 0xFFFFFFFF"
    unfolding four_bytes_def int_to_uchar_def by code_simp
  show ?thesis
    by (simp add: seM4Fill_def c b binary32_value_def)
qed

text \<open>The byte fill with 0, the only call the library itself makes, gives sixteen zeros.\<close>

lemma seM4Fill_zero: "seM4Fill 0 = Inr \<lparr>e = replicate 16 0\<rparr>"
  by (simp add: seM4Fill_def float_to_int_def int_to_uchar_def four_bytes_def binary32_value_def)

lemma seM4Identity_value:
  "seM4Identity = Inr \<lparr>e = [1, 0, 0, 0,  0, 1, 0, 0,  0, 0, 1, 0,  0, 0, 0, 1]\<rparr>"
  by (simp add: seM4Identity_def seM4Fill_zero replicate16)

text \<open>The cross-product matrix applied to a vector is \<open>seV3Cross\<close>.\<close>

lemma spec_cross_matrix_apply: "seV3MultiplyM3 (spec_cross_matrix a) b = seV3Cross a b"
  by (simp add: seV3MultiplyM3_def spec_cross_matrix_def seV3Cross_def)

text \<open>Applying a product of 3x3 matrices is applying the factors from right to left.\<close>

lemma spec_M3Apply_product:
  "spec_M3Apply (spec_M3Multiply A B) v = spec_M3Apply A (spec_M3Apply B v)"
  by (simp add: spec_M3Apply_def spec_M3Multiply_def spec_M3At_def upt3 algebra_simps
      numeral_2_eq_2 [symmetric])

text \<open>The source's \<open>seV3MultiplyM3\<close> is this application.\<close>

lemma seV3MultiplyM3_is_apply: "seV3MultiplyM3 A v = spec_M3Apply A v"
  by (simp add: seV3MultiplyM3_def spec_M3Apply_def spec_M3At_def numeral_2_eq_2 [symmetric])

text \<open>
  The operations that go through the byte fill return a matrix for every argument:
  they only ever fill with 0.
\<close>

lemma fill_callers_return:
  "\<exists>m. seM4Identity = Inr m"
  "\<exists>m. seM4Perspective angle ratio near far = Inr m"
  "\<exists>m. seM4Scale x y z = Inr m"
  "\<exists>m. seM4Translate x y z = Inr m"
  by (simp_all add: seM4Identity_def seM4Perspective_def seM4Scale_def seM4Translate_def
      seM4Fill_zero Let_def)

text \<open>Away from length 0 the two readings of \<open>seV3Normalize\<close> agree.\<close>

lemma seV3Normalize_nf_finite:
  assumes "seV3Length v \<noteq> 0"
  shows "seV3Normalize_nf v =
    (Finite (vx (seV3Normalize v)), Finite (vy (seV3Normalize v)), Finite (vz (seV3Normalize v)))"
  using assms by (simp add: seV3Normalize_nf_def seV3Normalize_def fdiv_def Let_def)

lemma seV3Length_sq: "seV3Length v * seV3Length v = seV3Dot v v"
  by (simp add: seV3Length_def seV3Dot_def SE_SQUARED_def)

lemma seV3Length_eq_0_iff: "seV3Length v = 0 \<longleftrightarrow> v = v3_zero"
proof -
  have "vx v * vx v + vy v * vy v + vz v * vz v = 0
        \<longleftrightarrow> vx v * vx v + vy v * vy v = 0 \<and> vz v * vz v = 0"
    by (rule add_nonneg_eq_0_iff) simp_all
  then have "vx v * vx v + vy v * vy v + vz v * vz v = 0 \<longleftrightarrow> vx v = 0 \<and> vy v = 0 \<and> vz v = 0"
    by (simp add: sum_squares_eq_zero_iff)
  then show ?thesis
    by (cases v) (simp add: seV3Length_def SE_SQUARED_def v3_zero_def)
qed

lemma seV3Length_eq_1_iff: "seV3Length v = 1 \<longleftrightarrow> seV3Dot v v = 1"
proof
  assume "seV3Length v = 1"
  then show "seV3Dot v v = 1"
    using seV3Length_sq [of v] by simp
next
  assume "seV3Dot v v = 1"
  then show "seV3Length v = 1"
    by (simp add: seV3Length_def seV3Dot_def SE_SQUARED_def)
qed

lemma seV3Dot_commute: "seV3Dot v w = seV3Dot w v"
  by (simp add: seV3Dot_def mult.commute)

lemma seV3Dot_Normalize_left: "seV3Dot (seV3Normalize v) w = seV3Dot v w / seV3Length v"
  by (simp add: seV3Normalize_def seV3Dot_def Let_def add_divide_distrib)

lemma seV3Normalize_unit:
  assumes "v \<noteq> v3_zero"
  shows "seV3Dot (seV3Normalize v) (seV3Normalize v) = 1"
proof -
  have nz: "seV3Length v \<noteq> 0"
    using assms by (simp add: seV3Length_eq_0_iff)
  have "seV3Dot (seV3Normalize v) (seV3Normalize v) = seV3Dot v v / seV3Length v / seV3Length v"
    by (simp add: seV3Dot_Normalize_left seV3Dot_commute [of v "seV3Normalize v"])
  also have "\<dots> = 1"
    using nz by (simp add: seV3Length_sq [symmetric])
  finally show ?thesis .
qed

lemma seV3Dot_Cross_left: "seV3Dot (seV3Cross a b) a = 0"
  by (simp add: seV3Dot_def seV3Cross_def algebra_simps)

lemma seV3Dot_Cross_right: "seV3Dot (seV3Cross a b) b = 0"
  by (simp add: seV3Dot_def seV3Cross_def algebra_simps)

lemma seV3Cross_Lagrange:
  "seV3Dot (seV3Cross a b) (seV3Cross a b) =
     seV3Dot a a * seV3Dot b b - seV3Dot a b * seV3Dot a b"
  by (simp add: seV3Dot_def seV3Cross_def algebra_simps)

lemma seV3Dot_neg_right: "seV3Dot v (v3_neg w) = - seV3Dot v w"
  by (simp add: seV3Dot_def v3_neg_def)

lemma seV3Dot_neg_left: "seV3Dot (v3_neg v) w = - seV3Dot v w"
  by (simp add: seV3Dot_def v3_neg_def)

lemma seM4LookAt_rows:
  "m4_row3 (seM4LookAt eye center up) 0 =
     seV3Normalize (seV3Cross (seV3Normalize (seV3Subtract center eye)) up)"
  "m4_row3 (seM4LookAt eye center up) 1 =
     seV3Cross (seV3Normalize (seV3Cross (seV3Normalize (seV3Subtract center eye)) up))
               (seV3Normalize (seV3Subtract center eye))"
  "m4_row3 (seM4LookAt eye center up) 2 = v3_neg (seV3Normalize (seV3Subtract center eye))"
  by (simp_all add: Let_def seM4LookAt_def m4_row3_def m4_at_def v3_neg_def)

subsection \<open>seM4Fill\<close>

text \<open>
  Claim C1: for every scalar \<open>n\<close>, \<open>seM4Fill(n)\<close> returns the matrix whose 16 elements all
  equal \<open>n\<close>. The code does not do this: at \<open>n = 1\<close> the byte fill writes the byte
  \<open>0x01\<close> 64 times, so every element has the bit pattern \<open>0x01010101\<close>, the binary32 number
  \<open>8454401 / 2^148\<close> (about \<open>2.37e-38\<close>), and the result is not the matrix of ones.
\<close>

theorem seM4Fill_one_is_not_ones:
  "seM4Fill 1 = Inr \<lparr>e = replicate 16 (8454401 / 2 ^ 148)\<rparr>
   \<and> seM4Fill 1 \<noteq> Inr \<lparr>e = replicate 16 1\<rparr>"
  by (simp add: seM4Fill_def float_to_int_def int_to_uchar_def four_bytes_def binary32_value_def)

subsection \<open>seM4RotateEuler\<close>

text \<open>
  Claim C2: for all angles \<open>x\<close>, \<open>y\<close>, \<open>z\<close> in degrees, the upper-left 3x3 block of
  \<open>seM4RotateEuler(x, y, z)\<close> is the product \<open>Rx(x')\<cdot>Ry(y')\<cdot>Rz(z')\<close> of the three
  single-axis rotation matrices, where \<open>x'\<close>, \<open>y'\<close>, \<open>z'\<close> are the angles converted to
  radians, that is multiplied by \<open>3.14159265358979323846 / 180\<close>; applied to a column
  vector the block rotates about z first, then y, then x; the fourth column is \<open>(0,0,0)\<close>
  and the bottom row is \<open>(0,0,0,1)\<close>.
\<close>

theorem seM4RotateEuler_is_Rx_Ry_Rz:
  "wf_seMat4 (seM4RotateEuler x y z)
   \<and> m4_upper_left (seM4RotateEuler x y z) =
       spec_M3Multiply (spec_Rx (x * (3.14159265358979323846 / 180)))
         (spec_M3Multiply (spec_Ry (y * (3.14159265358979323846 / 180)))
            (spec_Rz (z * (3.14159265358979323846 / 180))))
   \<and> spec_M3Apply (m4_upper_left (seM4RotateEuler x y z)) v =
       spec_M3Apply (spec_Rx (x * (3.14159265358979323846 / 180)))
         (spec_M3Apply (spec_Ry (y * (3.14159265358979323846 / 180)))
            (spec_M3Apply (spec_Rz (z * (3.14159265358979323846 / 180))) v))
   \<and> m4_fourth_column (seM4RotateEuler x y z) = [0, 0, 0]
   \<and> m4_bottom_row (seM4RotateEuler x y z) = [0, 0, 0, 1]"
proof -
  have block: "m4_upper_left (seM4RotateEuler x y z) =
      spec_M3Multiply (spec_Rx (x * (3.14159265358979323846 / 180)))
        (spec_M3Multiply (spec_Ry (y * (3.14159265358979323846 / 180)))
           (spec_Rz (z * (3.14159265358979323846 / 180))))"
    by (simp add: m4_upper_left_def m4_at_def seM4RotateEuler_def SE_DEG2RAD_def SE_PI_def
        spec_M3Multiply_def spec_M3At_def spec_Rx_def spec_Ry_def spec_Rz_def upt3 Let_def
        algebra_simps)
  have rest: "m4_fourth_column (seM4RotateEuler x y z) = [0, 0, 0]"
    "m4_bottom_row (seM4RotateEuler x y z) = [0, 0, 0, 1]"
    "wf_seMat4 (seM4RotateEuler x y z)"
    by (simp_all add: m4_fourth_column_def m4_bottom_row_def m4_at_def seM4RotateEuler_def
        upt3 upt4 Let_def wf_seMat4_def)
  show ?thesis
    by (simp only: block rest spec_M3Apply_product simp_thms)
qed

subsection \<open>seM4LookAt\<close>

text \<open>
  Claim C3: for all vectors \<open>eye\<close>, \<open>center\<close>, \<open>up\<close>, \<open>seM4LookAt(eye, center, up)\<close>
  computes \<open>front = normalize(center - eye)\<close>, \<open>side = normalize(cross(front, up))\<close> and
  \<open>trueUp = cross(side, front)\<close>, places \<open>side\<close>, \<open>trueUp\<close> and \<open>-front\<close> as the first,
  second and third rows of the upper-left 3x3 block, sets the elements at indices 3, 7
  and 11 to \<open>-dot(side, eye)\<close>, \<open>-dot(trueUp, eye)\<close> and \<open>+dot(front, eye)\<close>, and sets the
  bottom row to \<open>(0,0,0,1)\<close>. Below, the difference, the two normalizations, the two
  cross products and the three dot products are written out in the components:
  \<open>(dx, dy, dz)\<close> is \<open>center - eye\<close> and \<open>dl\<close> its length, \<open>(fx, fy, fz)\<close> is \<open>front\<close>,
  \<open>(cx, cy, cz)\<close> is \<open>cross(front, up)\<close> and \<open>cl\<close> its length, \<open>(sx, sy, sz)\<close> is \<open>side\<close>
  and \<open>(ux, uy, uz)\<close> is \<open>trueUp\<close>.
\<close>

theorem seM4LookAt_layout:
  "(let dx = vx center - vx eye;
        dy = vy center - vy eye;
        dz = vz center - vz eye;
        dl = sqrt (dx * dx + dy * dy + dz * dz);
        fx = dx / dl;
        fy = dy / dl;
        fz = dz / dl;
        cx = fy * vz up - fz * vy up;
        cy = fz * vx up - fx * vz up;
        cz = fx * vy up - fy * vx up;
        cl = sqrt (cx * cx + cy * cy + cz * cz);
        sx = cx / cl;
        sy = cy / cl;
        sz = cz / cl;
        ux = sy * fz - sz * fy;
        uy = sz * fx - sx * fz;
        uz = sx * fy - sy * fx
    in wf_seMat4 (seM4LookAt eye center up)
       \<and> m4_rows (seM4LookAt eye center up) =
           [[sx, sy, sz, - (sx * vx eye + sy * vy eye + sz * vz eye)],
            [ux, uy, uz, - (ux * vx eye + uy * vy eye + uz * vz eye)],
            [- fx, - fy, - fz, fx * vx eye + fy * vy eye + fz * vz eye],
            [0, 0, 0, 1]]
       \<and> e (seM4LookAt eye center up) ! 3 = - (sx * vx eye + sy * vy eye + sz * vz eye)
       \<and> e (seM4LookAt eye center up) ! 7 = - (ux * vx eye + uy * vy eye + uz * vz eye)
       \<and> e (seM4LookAt eye center up) ! 11 = fx * vx eye + fy * vy eye + fz * vz eye)"
  by (simp add: Let_def seM4LookAt_def m4_rows_def m4_at_def upt4 wf_seMat4_def
      seV3Normalize_def seV3Subtract_def seV3Cross_def seV3Dot_def seV3Length_def SE_SQUARED_def)

subsection \<open>seM4Perspective\<close>

text \<open>
  Claim C4: for all scalars \<open>angle\<close> (used as radians, no degree conversion), \<open>ratio\<close>,
  \<open>near\<close>, \<open>far\<close>, \<open>seM4Perspective(angle, ratio, near, far)\<close> returns the matrix with
  element (0,0) \<open>= (1/tan(angle/2))/ratio\<close>, element (1,1) \<open>= 1/tan(angle/2)\<close>, element
  (2,2) \<open>= (far+near)/(near-far)\<close>, element (2,3) \<open>= (2\<cdot>far\<cdot>near)/(near-far)\<close>, element
  (3,2) \<open>= -1\<close> and every other element 0.
\<close>

theorem seM4Perspective_elements:
  "\<exists>m. seM4Perspective angle ratio near far = Inr m
       \<and> wf_seMat4 m
       \<and> m4_rows m =
           [[(1 / tan (angle / 2)) / ratio, 0, 0, 0],
            [0, 1 / tan (angle / 2), 0, 0],
            [0, 0, (far + near) / (near - far), (2 * far * near) / (near - far)],
            [0, 0, - 1, 0]]"
  by (simp add: seM4Perspective_def seM4Fill_zero replicate16 wf_seMat4_def m4_rows_def m4_at_def
      upt4)

subsection \<open>seM4RotateAA\<close>

text \<open>
  Claim C5: for every axis \<open>v\<close> and every angle \<open>t\<close> in degrees, \<open>seM4RotateAA(v, t)\<close>
  first normalizes \<open>v\<close>, converts \<open>t\<close> to radians (the source multiplies by the literal
  \<open>0.01745329251\<close>) and returns the matrix whose upper-left 3x3 block is the Rodrigues
  matrix \<open>I\<cdot>c + (n \<otimes> n)\<cdot>(1 - c) + [n]\<times>\<cdot>s\<close> of the normalized axis \<open>n\<close>, \<open>c\<close> and \<open>s\<close> the
  cosine and sine of the converted angle, with fourth column \<open>(0,0,0)\<close> and bottom row
  \<open>(0,0,0,1)\<close>. Below, \<open>n\<close> is \<open>v\<close> divided by its length \<open>l\<close>, written out in the
  components, and it has length 1 whenever \<open>v\<close> is not the zero vector.
\<close>

theorem seM4RotateAA_is_Rodrigues:
  "(let l = sqrt (vx v * vx v + vy v * vy v + vz v * vz v);
        n = \<lparr>vx = vx v / l, vy = vy v / l, vz = vz v / l\<rparr>;
        a = t * 0.01745329251
    in wf_seMat4 (seM4RotateAA v t)
       \<and> m4_upper_left (seM4RotateAA v t) = spec_Rodrigues n (cos a) (sin a)
       \<and> m4_fourth_column (seM4RotateAA v t) = [0, 0, 0]
       \<and> m4_bottom_row (seM4RotateAA v t) = [0, 0, 0, 1]
       \<and> (v \<noteq> v3_zero \<longrightarrow> vx n * vx n + vy n * vy n + vz n * vz n = 1))"
proof -
  have n: "\<lparr>vx = vx v / sqrt (vx v * vx v + vy v * vy v + vz v * vz v),
            vy = vy v / sqrt (vx v * vx v + vy v * vy v + vz v * vz v),
            vz = vz v / sqrt (vx v * vx v + vy v * vy v + vz v * vz v)\<rparr> = seV3Normalize v"
    by (simp add: seV3Normalize_def seV3Length_def SE_SQUARED_def Let_def)
  have block: "m4_upper_left (seM4RotateAA v t) =
      spec_Rodrigues (seV3Normalize v) (cos (t * 0.01745329251)) (sin (t * 0.01745329251))"
    by (simp add: m4_upper_left_def m4_at_def seM4RotateAA_def spec_Rodrigues_def spec_M3Add_def
        spec_M3Scale_def spec_M3Identity_def spec_outer_def spec_cross_matrix_def upt3 Let_def
        algebra_simps)
  have rest: "m4_fourth_column (seM4RotateAA v t) = [0, 0, 0]"
    "m4_bottom_row (seM4RotateAA v t) = [0, 0, 0, 1]"
    "wf_seMat4 (seM4RotateAA v t)"
    by (simp_all add: m4_fourth_column_def m4_bottom_row_def m4_at_def seM4RotateAA_def
        upt3 upt4 Let_def wf_seMat4_def)
  have unit: "v \<noteq> v3_zero \<longrightarrow>
      vx (seV3Normalize v) * vx (seV3Normalize v) + vy (seV3Normalize v) * vy (seV3Normalize v)
        + vz (seV3Normalize v) * vz (seV3Normalize v) = 1"
    using seV3Normalize_unit [of v] by (simp add: seV3Dot_def)
  show ?thesis
    unfolding Let_def n using block rest unit by simp
qed

text \<open>
  The axis \<open>(0, 0, 2)\<close> and the angle 90: the length is 2, the normalized axis is
  \<open>(0, 0, 1)\<close>.
\<close>

theorem seM4RotateAA_is_Rodrigues_witness:
  "\<lparr>vx = 0, vy = 0, vz = 2\<rparr> \<noteq> v3_zero
   \<and> wf_seMat4 (seM4RotateAA \<lparr>vx = 0, vy = 0, vz = 2\<rparr> 90)
   \<and> m4_upper_left (seM4RotateAA \<lparr>vx = 0, vy = 0, vz = 2\<rparr> 90) =
       spec_Rodrigues \<lparr>vx = 0, vy = 0, vz = 1\<rparr>
         (cos (90 * 0.01745329251)) (sin (90 * 0.01745329251))
   \<and> m4_fourth_column (seM4RotateAA \<lparr>vx = 0, vy = 0, vz = 2\<rparr> 90) = [0, 0, 0]
   \<and> m4_bottom_row (seM4RotateAA \<lparr>vx = 0, vy = 0, vz = 2\<rparr> 90) = [0, 0, 0, 1]
   \<and> vx \<lparr>vx = 0, vy = 0, vz = 1\<rparr> * vx \<lparr>vx = 0, vy = 0, vz = 1\<rparr>
       + vy \<lparr>vx = 0, vy = 0, vz = 1\<rparr> * vy \<lparr>vx = 0, vy = 0, vz = 1\<rparr>
       + vz \<lparr>vx = 0, vy = 0, vz = 1\<rparr> * vz \<lparr>vx = 0, vy = 0, vz = 1\<rparr> = (1::real)"
  using seM4RotateAA_is_Rodrigues [of "\<lparr>vx = 0, vy = 0, vz = 2\<rparr>" 90]
  by (simp add: Let_def v3_zero_def)

subsection \<open>seM4Multiply\<close>

text \<open>
  Claim C6: for every 4x4 matrix \<open>M\<close>, \<open>seM4Multiply(seM4Identity(), M)\<close> equals \<open>M\<close> and
  \<open>seM4Multiply(M, seM4Identity())\<close> equals \<open>M\<close>.
\<close>

theorem seM4Multiply_identity:
  assumes "wf_seMat4 M"
  shows "\<exists>I. seM4Identity = Inr I \<and> seM4Multiply I M = M \<and> seM4Multiply M I = M"
proof -
  have "length (e M) = 16"
    using assms by (simp add: wf_seMat4_def)
  then obtain a0 a1 a2 a3 a4 a5 a6 a7 a8 a9 a10 a11 a12 a13 a14 a15
    where M: "e M = [a0, a1, a2, a3, a4, a5, a6, a7, a8, a9, a10, a11, a12, a13, a14, a15]"
    by (rule list16)
  let ?I = "\<lparr>e = [1, 0, 0, 0,  0, 1, 0, 0,  0, 0, 1, 0,  0, 0, 0, 1]\<rparr> :: seMat4"
  have l: "e (seM4Multiply ?I M) = e M"
    by (simp add: seM4Multiply_def M)
  have r: "e (seM4Multiply M ?I) = e M"
    by (simp add: seM4Multiply_def M)
  from l r show ?thesis
    by (simp add: seM4Identity_value)
qed

theorem seM4Multiply_identity_witness:
  "wf_seMat4 \<lparr>e = [1, 2, 3, 4, 5, 6, 7, 8, 9, 10, 11, 12, 13, 14, 15, 16]\<rparr>
   \<and> (\<exists>I. seM4Identity = Inr I
        \<and> seM4Multiply I \<lparr>e = [1, 2, 3, 4, 5, 6, 7, 8, 9, 10, 11, 12, 13, 14, 15, 16]\<rparr>
            = \<lparr>e = [1, 2, 3, 4, 5, 6, 7, 8, 9, 10, 11, 12, 13, 14, 15, 16]\<rparr>
        \<and> seM4Multiply \<lparr>e = [1, 2, 3, 4, 5, 6, 7, 8, 9, 10, 11, 12, 13, 14, 15, 16]\<rparr> I
            = \<lparr>e = [1, 2, 3, 4, 5, 6, 7, 8, 9, 10, 11, 12, 13, 14, 15, 16]\<rparr>)"
proof -
  have wf: "wf_seMat4 \<lparr>e = [1, 2, 3, 4, 5, 6, 7, 8, 9, 10, 11, 12, 13, 14, 15, 16]\<rparr>"
    by (simp add: wf_seMat4_def)
  from wf seM4Multiply_identity [OF wf] show ?thesis
    by (rule conjI)
qed

text \<open>
  Claim C8: for all 4x4 matrices \<open>A\<close>, \<open>B\<close>, \<open>C\<close>,
  \<open>seM4Multiply(seM4Multiply(A, B), C)\<close> equals \<open>seM4Multiply(A, seM4Multiply(B, C))\<close>,
  exactly in the arithmetic of the real numbers.
\<close>

theorem seM4Multiply_assoc:
  "seM4Multiply (seM4Multiply A B) C = seM4Multiply A (seM4Multiply B C)"
  by (simp add: seM4Multiply_def algebra_simps)

subsection \<open>seM4RotateEulerV3\<close>

text \<open>
  Claim C9: for every vector \<open>v\<close>, \<open>seM4RotateEulerV3(v)\<close> returns the same matrix as
  \<open>seM4RotateEuler(v.x, v.y, v.z)\<close>. The code does not do this: its body calls
  \<open>seM4Rotate\<close>, which has a prototype and no definition, so at \<open>v = (0, 0, 0)\<close> (as at
  every \<open>v\<close>) no matrix comes back, while \<open>seM4RotateEuler(0, 0, 0)\<close> is the identity
  matrix.
\<close>

theorem seM4RotateEulerV3_calls_undefined:
  "seM4RotateEulerV3 (seV3Assign 0 0 0) = Inl (UndefinedFunction ''seM4Rotate'')
   \<and> seM4RotateEuler 0 0 0 = \<lparr>e = [1, 0, 0, 0,  0, 1, 0, 0,  0, 0, 1, 0,  0, 0, 0, 1]\<rparr>"
  by (simp add: seM4RotateEulerV3_def seM4Rotate_def seV3Assign_def seM4RotateEuler_def
      SE_DEG2RAD_def)

subsection \<open>Result values\<close>

text \<open>
  Claim C7: every operation always produces a result value and never raises a fault or
  error; in particular \<open>seV3Normalize\<close> applied to the zero vector divides each component
  by 0 and yields a non-finite (NaN/Inf) result component-wise rather than signalling an
  error. The part on \<open>seV3Normalize\<close> holds: the length of the zero vector is 0 and each
  of the three components is non-finite. The first part does not hold of the code:
  \<open>seM4RotateEulerV3\<close>, here at \<open>v = (90, 0, 0)\<close>, produces no result value, because its
  body calls \<open>seM4Rotate\<close>, which is defined nowhere.
\<close>

theorem seM4RotateEulerV3_yields_no_value:
  "seM4RotateEulerV3 (seV3Assign 90 0 0) = Inl (UndefinedFunction ''seM4Rotate'')
   \<and> seV3Length (seV3Assign 0 0 0) = 0
   \<and> seV3Normalize_nf (seV3Assign 0 0 0) = (NonFinite, NonFinite, NonFinite)"
  by (simp add: seM4RotateEulerV3_def seM4Rotate_def seV3Assign_def seV3Normalize_nf_def
      seV3Length_def SE_SQUARED_def fdiv_def)

subsection \<open>The rows of seM4LookAt are orthonormal\<close>

text \<open>
  Claim C10: for all \<open>eye\<close>, \<open>center\<close>, \<open>up\<close> such that \<open>center - eye\<close> is not the zero
  vector and \<open>cross(normalize(center - eye), up)\<close> is not the zero vector, the three rows
  (\<open>side\<close>, \<open>trueUp\<close>, \<open>-front\<close>) of the upper-left 3x3 block of
  \<open>seM4LookAt(eye, center, up)\<close> are pairwise orthogonal and each of length 1, exactly in
  the arithmetic of the real numbers.
\<close>

theorem seM4LookAt_orthonormal:
  assumes d: "seV3Subtract center eye \<noteq> v3_zero"
    and c: "seV3Cross (seV3Normalize (seV3Subtract center eye)) up \<noteq> v3_zero"
  shows "seV3Dot (m4_row3 (seM4LookAt eye center up) 0) (m4_row3 (seM4LookAt eye center up) 1) = 0
       \<and> seV3Dot (m4_row3 (seM4LookAt eye center up) 0) (m4_row3 (seM4LookAt eye center up) 2) = 0
       \<and> seV3Dot (m4_row3 (seM4LookAt eye center up) 1) (m4_row3 (seM4LookAt eye center up) 2) = 0
       \<and> seV3Length (m4_row3 (seM4LookAt eye center up) 0) = 1
       \<and> seV3Length (m4_row3 (seM4LookAt eye center up) 1) = 1
       \<and> seV3Length (m4_row3 (seM4LookAt eye center up) 2) = 1"
proof -
  define f where "f = seV3Normalize (seV3Subtract center eye)"
  define s where "s = seV3Normalize (seV3Cross f up)"
  define u where "u = seV3Cross s f"
  have rows: "m4_row3 (seM4LookAt eye center up) 0 = s"
    "m4_row3 (seM4LookAt eye center up) 1 = u"
    "m4_row3 (seM4LookAt eye center up) 2 = v3_neg f"
    unfolding f_def s_def u_def by (rule seM4LookAt_rows)+
  have ff: "seV3Dot f f = 1"
    unfolding f_def using d by (rule seV3Normalize_unit)
  have ss: "seV3Dot s s = 1"
    unfolding s_def using c [folded f_def] by (rule seV3Normalize_unit)
  have sf: "seV3Dot s f = 0"
    by (simp add: s_def seV3Dot_Normalize_left seV3Dot_Cross_left)
  have su: "seV3Dot s u = 0"
    by (simp add: u_def seV3Dot_commute [of s] seV3Dot_Cross_left)
  have uf: "seV3Dot u f = 0"
    by (simp add: u_def seV3Dot_Cross_right)
  have uu: "seV3Dot u u = 1"
    by (simp add: u_def seV3Cross_Lagrange ss ff sf)
  show ?thesis
    unfolding rows
    by (simp add: seV3Length_eq_1_iff seV3Dot_neg_right seV3Dot_neg_left ss ff sf su uf uu)
qed

text \<open>
  The camera at \<open>(0, 0, 1)\<close> looking at the origin with \<open>up = (0, 1, 0)\<close>:
  \<open>center - eye = (0, 0, -1)\<close> and \<open>cross(front, up) = (1, 0, 0)\<close>.
\<close>

theorem seM4LookAt_orthonormal_witness:
  "seV3Subtract (seV3Assign 0 0 0) (seV3Assign 0 0 1) \<noteq> v3_zero
   \<and> seV3Cross (seV3Normalize (seV3Subtract (seV3Assign 0 0 0) (seV3Assign 0 0 1)))
        (seV3Assign 0 1 0) \<noteq> v3_zero
   \<and> seV3Dot (m4_row3 (seM4LookAt (seV3Assign 0 0 1) (seV3Assign 0 0 0) (seV3Assign 0 1 0)) 0)
        (m4_row3 (seM4LookAt (seV3Assign 0 0 1) (seV3Assign 0 0 0) (seV3Assign 0 1 0)) 1) = 0
   \<and> seV3Dot (m4_row3 (seM4LookAt (seV3Assign 0 0 1) (seV3Assign 0 0 0) (seV3Assign 0 1 0)) 0)
        (m4_row3 (seM4LookAt (seV3Assign 0 0 1) (seV3Assign 0 0 0) (seV3Assign 0 1 0)) 2) = 0
   \<and> seV3Dot (m4_row3 (seM4LookAt (seV3Assign 0 0 1) (seV3Assign 0 0 0) (seV3Assign 0 1 0)) 1)
        (m4_row3 (seM4LookAt (seV3Assign 0 0 1) (seV3Assign 0 0 0) (seV3Assign 0 1 0)) 2) = 0
   \<and> seV3Length (m4_row3 (seM4LookAt (seV3Assign 0 0 1) (seV3Assign 0 0 0) (seV3Assign 0 1 0)) 0) = 1
   \<and> seV3Length (m4_row3 (seM4LookAt (seV3Assign 0 0 1) (seV3Assign 0 0 0) (seV3Assign 0 1 0)) 1) = 1
   \<and> seV3Length (m4_row3 (seM4LookAt (seV3Assign 0 0 1) (seV3Assign 0 0 0) (seV3Assign 0 1 0)) 2) = 1"
proof -
  have d: "seV3Subtract (seV3Assign 0 0 0) (seV3Assign 0 0 1) \<noteq> v3_zero"
    by (simp add: seV3Assign_def seV3Subtract_def v3_zero_def)
  have c: "seV3Cross (seV3Normalize (seV3Subtract (seV3Assign 0 0 0) (seV3Assign 0 0 1)))
             (seV3Assign 0 1 0) \<noteq> v3_zero"
    by (simp add: seV3Assign_def seV3Subtract_def v3_zero_def seV3Normalize_def seV3Length_def
        SE_SQUARED_def seV3Cross_def)
  from d c seM4LookAt_orthonormal [OF d c] show ?thesis
    by blast
qed

end
